theory Spec2Isabelle
  imports Complex_Main "HOL-Library.Multiset"
begin

section \<open>Data model of \<^verbatim>\<open>ai_analyzer.py\<close>\<close>

text \<open>
  Python strings are sequences of code points. They are modelled as \<^typ>\<open>string\<close>, one
  \<^typ>\<open>char\<close> per code point, which covers the code points below 256 (ASCII and Latin-1,
  enough for every literal of the module). A naive \<^verbatim>\<open>datetime\<close> is a point on a
  linearly ordered time line and is modelled as an integer count of microseconds.
  The fields of the dataclasses carry the types of their annotations.
\<close>

type_synonym datetime = int

datatype py_exception =
    IndexError
  | KeyError
  | AttributeError
  | JSONDecodeError
  | RecursionError
  | OtherException string

text \<open>
  \<^verbatim>\<open>ContentItem\<close> of \<^verbatim>\<open>content_extractor.py\<close>. The field \<^verbatim>\<open>id\<close> is named
  \<open>item_id\<close> here; the free-form \<^verbatim>\<open>metadata\<close> dictionary is never read by the
  analyzer and is left out.
\<close>

record content_item =
  item_id :: string
  content_type :: string
  content :: string
  source_file :: string
  timestamp :: "datetime option"
  customer_id :: "string option"

text \<open>\<^verbatim>\<open>Opportunity\<close>; its fields \<^verbatim>\<open>id\<close> and \<^verbatim>\<open>keywords\<close> are named \<open>opp_id\<close> and \<open>opp_keywords\<close>.\<close>

record opportunity =
  opp_id :: string
  title :: string
  description :: string
  category :: string
  severity :: string
  frequency :: int
  sources :: "string list"
  opp_keywords :: "string list"
  created_at :: datetime
  updated_at :: datetime
  processing_date :: datetime
  status :: string
  comments :: string
  merged_from :: "string list"

section \<open>\<^verbatim>\<open>OpportunityDeduplicator._find_similarity_groups\<close>\<close>

text \<open>
  The similarity matrix is a list of rows; reading \<^verbatim>\<open>similarity_matrix[i][j]\<close> outside
  of it raises \<^verbatim>\<open>IndexError\<close>. The condition
  \<^verbatim>\<open>not visited[j] and similarity_matrix[i][j] >= threshold\<close> short-circuits, so the matrix
  is only read for a \<open>j\<close> that is not yet visited. The inner loop over
  \<^verbatim>\<open>range(i + 1, n)\<close> is a fold of \<open>attach_step\<close>, the outer loop over \<^verbatim>\<open>range(n)\<close>
  a fold of \<open>seed_step\<close>.
\<close>

definition attach_step ::
  "real \<Rightarrow> real list list \<Rightarrow> 'a list \<Rightarrow> nat \<Rightarrow> nat
    \<Rightarrow> py_exception + ('a list \<times> bool list) \<Rightarrow> py_exception + ('a list \<times> bool list)" where
  "attach_step similarity_threshold similarity_matrix opportunities i j st =
     (case st of
        Inl e \<Rightarrow> Inl e
      | Inr (grp, visited) \<Rightarrow>
          if visited ! j then Inr (grp, visited)
          else if length similarity_matrix \<le> i then Inl IndexError
          else if length (similarity_matrix ! i) \<le> j then Inl IndexError
          else if similarity_threshold \<le> similarity_matrix ! i ! j
            then Inr (grp @ [opportunities ! j], visited[j := True])
          else Inr (grp, visited))"

definition seed_step ::
  "real \<Rightarrow> real list list \<Rightarrow> 'a list \<Rightarrow> nat \<Rightarrow> nat
    \<Rightarrow> py_exception + ('a list list \<times> bool list) \<Rightarrow> py_exception + ('a list list \<times> bool list)" where
  "seed_step similarity_threshold similarity_matrix opportunities n i st =
     (case st of
        Inl e \<Rightarrow> Inl e
      | Inr (groups, visited) \<Rightarrow>
          if visited ! i then Inr (groups, visited)
          else
            (case fold (attach_step similarity_threshold similarity_matrix opportunities i)
                    [i + 1 ..< n] (Inr ([opportunities ! i], visited[i := True])) of
               Inl e \<Rightarrow> Inl e
             | Inr (grp, visited') \<Rightarrow> Inr (groups @ [grp], visited')))"

definition find_similarity_groups ::
  "real \<Rightarrow> real list list \<Rightarrow> 'a list \<Rightarrow> py_exception + 'a list list" where
  "find_similarity_groups similarity_threshold similarity_matrix opportunities =
     (let n = length opportunities in
      case fold (seed_step similarity_threshold similarity_matrix opportunities n)
             [0 ..< n] (Inr ([], replicate n False)) of
        Inl e \<Rightarrow> Inl e
      | Inr (groups, visited) \<Rightarrow> Inr groups)"

section \<open>\<^verbatim>\<open>OpportunityDeduplicator._merge_descriptions\<close>\<close>

text \<open>
  \<^verbatim>\<open>str.strip()\<close> removes leading and trailing whitespace; the whitespace code points
  below 256 are 9 to 13, 28 to 32, 133 and 160. \<^verbatim>\<open>str.lower()\<close> maps, below 256, the
  letters A to Z and the Latin-1 capitals 192 to 222 (without the multiplication sign 215)
  to the code point 32 higher and leaves every other code point as it is.
\<close>

definition py_isspace :: "char \<Rightarrow> bool" where
  "py_isspace c =
     (let n = (of_char c :: nat) in
      (9 \<le> n \<and> n \<le> 13) \<or> (28 \<le> n \<and> n \<le> 32) \<or> n = 133 \<or> n = 160)"

definition py_strip :: "string \<Rightarrow> string" where
  "py_strip s = rev (dropWhile py_isspace (rev (dropWhile py_isspace s)))"

definition lower_char :: "char \<Rightarrow> char" where
  "lower_char c =
     (let n = (of_char c :: nat) in
      if (65 \<le> n \<and> n \<le> 90) \<or> (192 \<le> n \<and> n \<le> 222 \<and> n \<noteq> 215)
      then char_of (n + 32) else c)"

definition py_lower :: "string \<Rightarrow> string" where
  "py_lower s = map lower_char s"

text \<open>\<^verbatim>\<open>sep.join(parts)\<close>.\<close>

fun py_join :: "string \<Rightarrow> string list \<Rightarrow> string" where
  "py_join sep [] = []"
| "py_join sep [x] = x"
| "py_join sep (x # y # ys) = x @ sep @ py_join sep (y # ys)"

text \<open>
  One round of the loop of \<^verbatim>\<open>_merge_descriptions\<close>; the state is
  \<^verbatim>\<open>(unique_descriptions, seen)\<close>. An empty string is falsy, which is the second
  conjunct of the condition.
\<close>

definition description_step :: "string \<Rightarrow> string list \<times> string set \<Rightarrow> string list \<times> string set" where
  "description_step desc st =
     (case st of (unique_descriptions, seen) \<Rightarrow>
        let desc_clean = py_lower (py_strip desc) in
        if desc_clean \<notin> seen \<and> desc_clean \<noteq> []
        then (unique_descriptions @ [py_strip desc], insert desc_clean seen)
        else (unique_descriptions, seen))"

definition merge_descriptions :: "string list \<Rightarrow> string" where
  "merge_descriptions descriptions =
     (if length descriptions = 1 then descriptions ! 0
      else
        let unique_descriptions = fst (fold description_step descriptions ([], {})) in
        if length unique_descriptions = 1 then unique_descriptions ! 0
        else py_join '' | '' unique_descriptions)"

section \<open>\<^verbatim>\<open>OpportunityDeduplicator._get_highest_severity\<close>\<close>

definition severity_order :: "string \<rightharpoonup> nat" where
  "severity_order = [''low'' \<mapsto> 1, ''medium'' \<mapsto> 2, ''high'' \<mapsto> 3, ''critical'' \<mapsto> 4]"

text \<open>The keys of \<^verbatim>\<open>severity_order\<close>.\<close>

definition recognized_severities :: "string set" where
  "recognized_severities = {''low'', ''medium'', ''high'', ''critical''}"

text \<open>\<^verbatim>\<open>severity_order.get(severity, 0)\<close>.\<close>

definition severity_value :: "string \<Rightarrow> nat" where
  "severity_value sev = (case severity_order sev of None \<Rightarrow> 0 | Some v \<Rightarrow> v)"

text \<open>One round of the loop; the state is \<^verbatim>\<open>(highest_severity, highest_value)\<close>.\<close>

definition severity_step :: "string \<Rightarrow> string \<times> nat \<Rightarrow> string \<times> nat" where
  "severity_step sev st =
     (case st of (highest_severity, highest_value) \<Rightarrow>
        let v = severity_value sev in
        if highest_value < v then (sev, v) else (highest_severity, highest_value))"

definition get_highest_severity :: "string list \<Rightarrow> string" where
  "get_highest_severity severities = fst (fold severity_step severities (''low'', 0))"

section \<open>\<^verbatim>\<open>OpportunityDeduplicator._merge_opportunity_group\<close>\<close>

text \<open>
  Two things of the environment are parameters. \<open>list_of_set xs\<close> is what Python's
  \<^verbatim>\<open>list(set(xs))\<close> returns for the insertion sequence \<open>xs\<close>: the elements without
  duplicates, in an order the language leaves open. \<open>now\<close> is the reading of
  \<^verbatim>\<open>datetime.now()\<close>. The loop over the members accumulates
  \<^verbatim>\<open>(all_sources, all_keywords, total_frequency, merged_ids)\<close>; the keywords are kept as
  the sequence of insertions into the set.
\<close>

definition merge_step ::
  "opportunity \<Rightarrow> opportunity
    \<Rightarrow> string list \<times> string list \<times> int \<times> string list
    \<Rightarrow> string list \<times> string list \<times> int \<times> string list" where
  "merge_step base_opp opp st =
     (case st of (all_sources, all_keywords, total_frequency, merged_ids) \<Rightarrow>
        (all_sources @ sources opp,
         all_keywords @ opp_keywords opp,
         total_frequency + frequency opp,
         if opp_id opp \<noteq> opp_id base_opp then merged_ids @ [opp_id opp] else merged_ids))"

definition merge_opportunity_group ::
  "(string list \<Rightarrow> string list) \<Rightarrow> datetime \<Rightarrow> opportunity list \<Rightarrow> py_exception + opportunity" where
  "merge_opportunity_group list_of_set now opportunities =
     (if length opportunities = 1 then Inr (opportunities ! 0)
      else
        (case opportunities of
           [] \<Rightarrow> Inl IndexError
         | base_opp # rest \<Rightarrow>
             (case fold (merge_step base_opp) opportunities ([], [], 0, []) of
                (all_sources, all_keywords, total_frequency, merged_ids) \<Rightarrow>
                  Inr \<lparr> opp_id = opp_id base_opp,
                        title = title base_opp,
                        description = merge_descriptions (map description opportunities),
                        category = category base_opp,
                        severity = get_highest_severity (map severity opportunities),
                        frequency = total_frequency,
                        sources = list_of_set all_sources,
                        opp_keywords = list_of_set all_keywords,
                        created_at = min_list (map created_at opportunities),
                        updated_at = now,
                        processing_date = min_list (map processing_date opportunities),
                        status = status base_opp,
                        comments = comments base_opp,
                        merged_from = merged_ids \<rparr>)))"

section \<open>Deduplication as the specification words it\<close>

text \<open>
  \<open>keep_first key xs\<close> keeps, in order, the first element of \<open>xs\<close> for every key.
  \<open>merge_descriptions_as_claimed\<close> follows the sentence of the specification:
  the descriptions deduplicated by case-insensitive trimmed equality (first occurrence
  kept, in member order), joined with \<^verbatim>\<open>" | "\<close>; a single remaining description is
  the join of a one-element list, that is the description itself.
\<close>

fun keep_first :: "('a \<Rightarrow> 'b) \<Rightarrow> 'a list \<Rightarrow> 'a list" where
  "keep_first key [] = []"
| "keep_first key (x # xs) = x # keep_first key (filter (\<lambda>y. key y \<noteq> key x) xs)"

definition merge_descriptions_as_claimed :: "string list \<Rightarrow> string" where
  "merge_descriptions_as_claimed descriptions =
     py_join '' | '' (keep_first (\<lambda>d. py_lower (py_strip d)) descriptions)"

section \<open>\<^verbatim>\<open>AIAnalyzer\<close>: parsing the response\<close>

text \<open>
  A raw opportunity record is the dictionary \<^verbatim>\<open>opp_data\<close> that the response carries for
  one opportunity. Its five keys are optional; a key that is absent is \<open>None\<close>, a key
  that is present holds a value of the type the \<^verbatim>\<open>Opportunity\<close> field it flows into is
  annotated with. The decoded response is a dictionary whose key \<^verbatim>\<open>opportunities\<close>
  may be absent as well.
\<close>

record opp_data =
  data_title :: "string option"
  data_description :: "string option"
  data_category :: "string option"
  data_severity :: "string option"
  data_keywords :: "string list option"

record analysis_result =
  result_opportunities :: "opp_data list option"

text \<open>
  \<^verbatim>\<open>re.search(r'\{.*\}', response_text, re.DOTALL)\<close>: the leftmost match starts at the
  first opening brace, and the greedy \<^verbatim>\<open>.*\<close> (which matches newlines too) ends it at
  the last closing brace behind it. When no closing brace follows the first opening
  brace, none follows a later one either, and there is no match.
\<close>

definition search_json :: "string \<Rightarrow> string option" where
  "search_json response_text =
     (case dropWhile (\<lambda>c. c \<noteq> CHR ''{'') response_text of
        [] \<Rightarrow> None
      | brace # rest \<Rightarrow>
          if CHR ''}'' \<in> set rest
          then Some (brace # rev (dropWhile (\<lambda>c. c \<noteq> CHR ''}'') (rev rest)))
          else None)"

text \<open>
  \<^verbatim>\<open>json.loads\<close> is a parameter: a function from the text to the decoded object or to
  the exception it raises. The handler of \<^verbatim>\<open>_parse_ai_response\<close> catches
  \<^verbatim>\<open>json.JSONDecodeError\<close> only; any other exception of the decoder leaves the function.
\<close>

definition empty_result :: analysis_result where
  "empty_result = \<lparr> result_opportunities = Some [] \<rparr>"

definition parse_ai_response ::
  "(string \<Rightarrow> py_exception + analysis_result) \<Rightarrow> string \<Rightarrow> py_exception + analysis_result" where
  "parse_ai_response json_loads response_text =
     (case search_json response_text of
        Some json_str \<Rightarrow>
          (case json_loads json_str of
             Inr decoded \<Rightarrow> Inr decoded
           | Inl JSONDecodeError \<Rightarrow> Inr empty_result
           | Inl e \<Rightarrow> Inl e)
      | None \<Rightarrow> Inr empty_result)"

section \<open>\<^verbatim>\<open>AIAnalyzer._create_opportunity_from_analysis\<close>\<close>

text \<open>\<^verbatim>\<open>str(n)\<close> for a natural number and for an integer: the decimal digits.\<close>

fun str_nat :: "nat \<Rightarrow> string" where
  "str_nat n =
     (if n < 10 then [char_of (48 + n)]
      else str_nat (n div 10) @ [char_of (48 + n mod 10)])"

declare str_nat.simps [simp del]

definition str_int :: "int \<Rightarrow> string" where
  "str_int i = (if i < 0 then CHR ''-'' # str_nat (nat (- i)) else str_nat (nat i))"

text \<open>
  The built-in \<^verbatim>\<open>hash\<close> on strings is the parameter \<open>hash\<close>: a function of the string
  during one run of the interpreter, with no further property known. \<open>now\<close> is the
  reading of \<^verbatim>\<open>datetime.now()\<close> in the first line of the body. Python's \<^verbatim>\<open>%\<close> with a
  positive modulus is \<open>mod\<close> on the integers. \<^verbatim>\<open>opp_data['title']\<close> raises
  \<^verbatim>\<open>KeyError\<close> on a record without the key, and it is evaluated before the
  \<^verbatim>\<open>Opportunity\<close> is built. A \<^verbatim>\<open>datetime\<close> is never falsy, so
  \<^verbatim>\<open>processing_date or now\<close> is the given date when there is one.
\<close>

definition untitled_placeholder :: string where
  "untitled_placeholder = ''Oportunidad sin t'' @ [CHR 0xED] @ ''tulo''"

definition no_description_placeholder :: string where
  "no_description_placeholder = ''Sin descripci'' @ [CHR 0xF3] @ ''n''"

definition create_opportunity_from_analysis ::
  "(string \<Rightarrow> int) \<Rightarrow> datetime \<Rightarrow> opp_data \<Rightarrow> content_item \<Rightarrow> datetime option
    \<Rightarrow> py_exception + opportunity" where
  "create_opportunity_from_analysis hash now data item given_date =
     (let proc_date = (case given_date of None \<Rightarrow> now | Some d \<Rightarrow> d) in
      case data_title data of
        None \<Rightarrow> Inl KeyError
      | Some subscripted_title \<Rightarrow>
          let opportunity_id =
                ''opp_'' @ item_id item @ ''_'' @ str_nat (nat (hash subscripted_title mod 10000))
          in Inr \<lparr> opp_id = opportunity_id,
                   title = (case data_title data of None \<Rightarrow> untitled_placeholder | Some v \<Rightarrow> v),
                   description =
                     (case data_description data of None \<Rightarrow> no_description_placeholder | Some v \<Rightarrow> v),
                   category =
                     (case data_category data of None \<Rightarrow> ''improvement_opportunity'' | Some v \<Rightarrow> v),
                   severity = (case data_severity data of None \<Rightarrow> ''medium'' | Some v \<Rightarrow> v),
                   frequency = 1,
                   sources = [item_id item],
                   opp_keywords = (case data_keywords data of None \<Rightarrow> [] | Some v \<Rightarrow> v),
                   created_at = now,
                   updated_at = now,
                   processing_date = proc_date,
                   status = ''nueva'',
                   comments = [],
                   merged_from = [] \<rparr>)"

section \<open>\<^verbatim>\<open>AIAnalyzer\<close>: prompt, single item and batch\<close>

text \<open>
  The f-string of \<^verbatim>\<open>_build_analysis_prompt\<close>, line by line; every line, the empty first
  one included, ends with a newline. \<^verbatim>\<open>customer_id or 'No especificado'\<close> takes the
  marker for \<^verbatim>\<open>None\<close> and for the empty string.
\<close>

definition build_analysis_prompt :: "int \<Rightarrow> content_item \<Rightarrow> string" where
  \<open>build_analysis_prompt max_opportunities item =
     concat (map (\<lambda>line. line @ [CHR 0x0A])
       [ [],
         ''Analiza el siguiente contenido de cliente y identifica dolores, oportunidades de mejora o solicitudes de funcionalidades.'',
         [],
         ''**INFORMACI'' @ [CHR 0xD3] @ ''N DEL CONTENIDO:**'',
         ''- ID: '' @ item_id item,
         ''- Tipo: '' @ content_type item,
         ''- Cliente: '' @
            (case customer_id item of
               None \<Rightarrow> ''No especificado''
             | Some c \<Rightarrow> if c = [] then ''No especificado'' else c),
         ''- Archivo fuente: '' @ source_file item,
         [],
         ''**CONTENIDO A ANALIZAR:**'',
         content item,
         [],
         ''**INSTRUCCIONES:**'',
         ''1. Identifica m'' @ [CHR 0xE1] @ ''ximo '' @ str_int max_opportunities @ '' oportunidades principales'',
         ''2. Para cada oportunidad identificada, proporciona:'',
         ''   - Un t'' @ [CHR 0xED] @ ''tulo conciso y descriptivo'',
         ''   - Una descripci'' @ [CHR 0xF3] @ ''n detallada del dolor/oportunidad'',
         ''   - Categor'' @ [CHR 0xED] @ ''a: "pain_point", "improvement_opportunity", o "feature_request"'',
         ''   - Severidad: "low", "medium", "high", o "critical"'',
         ''   - Palabras clave relacionadas (3-5 palabras)'',
         [],
         ''3. Solo identifica oportunidades REALES y ESPEC'' @ [CHR 0xCD] @ ''FICAS. No inventes problemas.'',
         ''4. Si no hay oportunidades claras, devuelve una lista vac'' @ [CHR 0xED] @ ''a.'',
         [],
         ''**FORMATO DE RESPUESTA (JSON):**'',
         ''{'',
         ''    "opportunities": ['',
         ''        {'',
         ''            "title": "T'' @ [CHR 0xED] @ ''tulo de la oportunidad",'',
         ''            "description": "Descripci'' @ [CHR 0xF3] @ ''n detallada del dolor o oportunidad identificada",'',
         ''            "category": "pain_point|improvement_opportunity|feature_request",'',
         ''            "severity": "low|medium|high|critical",'',
         ''            "keywords": ["palabra1", "palabra2", "palabra3"]'',
         ''        }'',
         ''    ]'',
         ''}'',
         [],
         ''**RESPUESTA:**'' ])\<close>

text \<open>
  What the analyzer calls outside of itself, over a state \<open>'w\<close> of the outside world
  that every call may change:
  \<^item> \<open>messages_create prompt\<close> is the request to the backend together with the reading of
    \<^verbatim>\<open>response.content[0].text\<close>: the text, or the exception raised;
  \<^item> \<open>json_loads\<close> and \<open>hash_str\<close> are \<^verbatim>\<open>json.loads\<close> and the built-in
    \<^verbatim>\<open>hash\<close>;
  \<^item> \<open>datetime_now\<close> reads the clock;
  \<^item> \<open>analyze_multiple_items\<close> is the consolidated call \<^verbatim>\<open>self._analyze_multiple_items\<close>.
    The class defines no method of this name, so in the module as it stands the call
    raises \<^verbatim>\<open>AttributeError\<close> and leaves the world as it is; the parameter admits
    any other behaviour as well.
  Printing is not modelled.
\<close>

record 'w analyzer =
  max_opportunities :: int
  messages_create :: "string \<Rightarrow> 'w \<Rightarrow> (py_exception + string) \<times> 'w"
  json_loads :: "string \<Rightarrow> py_exception + analysis_result"
  hash_str :: "string \<Rightarrow> int"
  datetime_now :: "'w \<Rightarrow> datetime \<times> 'w"
  analyze_multiple_items :: "content_item list \<Rightarrow> 'w \<Rightarrow> (py_exception + opportunity list) \<times> 'w"

text \<open>
  The loop of \<^verbatim>\<open>_analyze_single_item\<close> over
  \<^verbatim>\<open>analysis_result.get('opportunities', [])\<close>; \<open>acc\<close> is the list \<^verbatim>\<open>opportunities\<close>
  built so far. An exception of the factory ends the loop.
\<close>

fun create_opportunities ::
  "'w analyzer \<Rightarrow> content_item \<Rightarrow> opp_data list \<Rightarrow> opportunity list \<Rightarrow> 'w
    \<Rightarrow> (py_exception + opportunity list) \<times> 'w" where
  "create_opportunities self item [] acc w = (Inr acc, w)"
| "create_opportunities self item (data # rest) acc w =
     (case datetime_now self w of
        (now, w') \<Rightarrow>
          (case create_opportunity_from_analysis (hash_str self) now data item None of
             Inl e \<Rightarrow> (Inl e, w')
           | Inr opp \<Rightarrow> create_opportunities self item rest (acc @ [opp]) w'))"

text \<open>
  \<^verbatim>\<open>_analyze_single_item\<close>: everything behind the prompt is inside
  \<^verbatim>\<open>try ... except Exception\<close>, which turns every exception into the empty list.
\<close>

definition analyze_single_item ::
  "'w analyzer \<Rightarrow> content_item \<Rightarrow> 'w \<Rightarrow> (py_exception + opportunity list) \<times> 'w" where
  "analyze_single_item self item w =
     (let prompt = build_analysis_prompt (max_opportunities self) item in
      case messages_create self prompt w of
        (Inl e, w') \<Rightarrow> (Inr [], w')
      | (Inr response_text, w') \<Rightarrow>
          (case parse_ai_response (json_loads self) response_text of
             Inl e \<Rightarrow> (Inr [], w')
           | Inr parsed \<Rightarrow>
               (case create_opportunities self item
                       (case result_opportunities parsed of None \<Rightarrow> [] | Some l \<Rightarrow> l) [] w' of
                  (Inl e, w'') \<Rightarrow> (Inr [], w'')
                | (Inr opps, w'') \<Rightarrow> (Inr opps, w''))))"

text \<open>
  The fallback loop of \<^verbatim>\<open>_analyze_batch\<close>; \<open>acc\<close> is the list \<^verbatim>\<open>opportunities\<close>. An
  item whose analysis raises is skipped.
\<close>

fun analyze_each ::
  "'w analyzer \<Rightarrow> content_item list \<Rightarrow> opportunity list \<Rightarrow> 'w \<Rightarrow> opportunity list \<times> 'w" where
  "analyze_each self [] acc w = (acc, w)"
| "analyze_each self (item # rest) acc w =
     (case analyze_single_item self item w of
        (Inl e, w') \<Rightarrow> analyze_each self rest acc w'
      | (Inr item_opportunities, w') \<Rightarrow> analyze_each self rest (acc @ item_opportunities) w')"

definition analyze_batch ::
  "'w analyzer \<Rightarrow> content_item list \<Rightarrow> 'w \<Rightarrow> opportunity list \<times> 'w" where
  "analyze_batch self content_items w =
     (if length content_items = 1 then
        (case analyze_single_item self (content_items ! 0) w of
           (Inl e, w') \<Rightarrow> ([], w')
         | (Inr opps, w') \<Rightarrow> (opps, w'))
      else
        (case analyze_multiple_items self content_items w of
           (Inr opps, w') \<Rightarrow> (opps, w')
         | (Inl e, w') \<Rightarrow> analyze_each self content_items [] w'))"

text \<open>
  The reference of the fallback equivalence: every item of the batch run on its own
  through the size-1 path of \<open>analyze_batch\<close>, one after the other, the results
  concatenated in item order.
\<close>

fun individually ::
  "'w analyzer \<Rightarrow> content_item list \<Rightarrow> 'w \<Rightarrow> opportunity list \<times> 'w" where
  "individually self [] w = ([], w)"
| "individually self (item # rest) w =
     (case analyze_batch self [item] w of
        (first, w') \<Rightarrow>
          (case individually self rest w' of
             (others, w'') \<Rightarrow> (first @ others, w'')))"

section \<open>Example data\<close>

text \<open>
  Concrete inputs at which the theorems below are instantiated. \<open>toy_hash\<close> (the sum
  of the code points) and \<open>toy_loads\<close> (which decodes one text and rejects every
  other) stand for \<^verbatim>\<open>hash\<close> and \<^verbatim>\<open>json.loads\<close> there. The world of
  \<open>toy_analyzer\<close> is a counter that the clock reads and advances; its backend answers
  every prompt with the text that \<open>toy_loads\<close> decodes, and its consolidated call
  raises \<^verbatim>\<open>AttributeError\<close>, as the call of the undefined method does.
\<close>

definition example_item :: "string \<Rightarrow> content_item" where
  "example_item ident =
     \<lparr> item_id = ident, content_type = ''ticket'', content = ''Checkout is slow'',
       source_file = ''tickets.xlsx'', timestamp = None, customer_id = None \<rparr>"

definition example_opportunity :: "string \<Rightarrow> string \<Rightarrow> string \<Rightarrow> int \<Rightarrow> opportunity" where
  "example_opportunity ident desc sev freq =
     \<lparr> opp_id = ident, title = ''Slow checkout'', description = desc,
       category = ''pain_point'', severity = sev, frequency = freq,
       sources = [''item1''], opp_keywords = [''checkout''],
       created_at = 10, updated_at = 10, processing_date = 10,
       status = ''en_proceso'', comments = ''seen twice'', merged_from = [] \<rparr>"

definition example_data :: "string option \<Rightarrow> opp_data" where
  "example_data t =
     \<lparr> data_title = t, data_description = Some ''Checkout is slow'', data_category = None,
       data_severity = None, data_keywords = None \<rparr>"

definition toy_hash :: "string \<Rightarrow> int" where
  "toy_hash s = sum_list (map of_char s)"

definition toy_loads :: "string \<Rightarrow> py_exception + analysis_result" where
  \<open>toy_loads s =
     (if s = ''{"opportunities": [{"title": "ab"}]}''
      then Inr \<lparr> result_opportunities =
                   Some [\<lparr> data_title = Some ''ab'', data_description = None, data_category = None,
                           data_severity = None, data_keywords = None \<rparr>] \<rparr>
      else Inl JSONDecodeError)\<close>

definition toy_analyzer :: "nat analyzer" where
  \<open>toy_analyzer =
     \<lparr> max_opportunities = 3,
       messages_create = (\<lambda>prompt w. (Inr ''Found: {"opportunities": [{"title": "ab"}]} Done.'', w)),
       json_loads = toy_loads,
       hash_str = toy_hash,
       datetime_now = (\<lambda>w. (int w, Suc w)),
       analyze_multiple_items = (\<lambda>items w. (Inl AttributeError, w)) \<rparr>\<close>



section \<open>Facts about the merger\<close>

lemma fold_merge_step:
  "fold (merge_step b) xs (s, k, f, m) =
     (s @ concat (map sources xs), k @ concat (map opp_keywords xs),
      f + sum_list (map frequency xs),
      m @ map opp_id (filter (\<lambda>opp. opp_id opp \<noteq> opp_id b) xs))"
  by (induction xs arbitrary: s k f m) (simp_all add: merge_step_def)

lemma fold_merge_step_init:
  "fold (merge_step b) xs ([], [], 0, []) =
     (concat (map sources xs), concat (map opp_keywords xs),
      sum_list (map frequency xs),
      map opp_id (filter (\<lambda>opp. opp_id opp \<noteq> opp_id b) xs))"
  using fold_merge_step[of b xs "[]" "[]" 0 "[]"] by simp

lemma merge_opportunity_group_empty:
  "merge_opportunity_group ls now [] = Inl IndexError"
  by (simp add: merge_opportunity_group_def)

lemma merge_opportunity_group_single:
  "merge_opportunity_group ls now [x] = Inr x"
  by (simp add: merge_opportunity_group_def)

lemma merge_opportunity_group_several:
  "merge_opportunity_group ls now (x # y # ys) =
     Inr \<lparr> opp_id = opp_id x, title = title x,
           description = merge_descriptions (map description (x # y # ys)),
           category = category x,
           severity = get_highest_severity (map severity (x # y # ys)),
           frequency = sum_list (map frequency (x # y # ys)),
           sources = ls (concat (map sources (x # y # ys))),
           opp_keywords = ls (concat (map opp_keywords (x # y # ys))),
           created_at = min_list (map created_at (x # y # ys)),
           updated_at = now,
           processing_date = min_list (map processing_date (x # y # ys)),
           status = status x, comments = comments x,
           merged_from =
             map opp_id (filter (\<lambda>opp. opp_id opp \<noteq> opp_id x) (x # y # ys)) \<rparr>"
proof -
  have "length (x # y # ys) \<noteq> 1" by simp
  then show ?thesis
    unfolding merge_opportunity_group_def fold_merge_step_init
    by (simp only: if_False list.case prod.case)
qed

text \<open>What a cluster of two or more members is merged into, field by field.\<close>

lemma merge_opportunity_group_fields:
  assumes "2 \<le> length xs"
  shows "\<exists>merged. merge_opportunity_group ls now xs = Inr merged
           \<and> opp_id merged = opp_id (hd xs)
           \<and> description merged = merge_descriptions (map description xs)
           \<and> severity merged = get_highest_severity (map severity xs)
           \<and> frequency merged = sum_list (map frequency xs)"
proof -
  from assms obtain x y ys where "xs = x # y # ys"
    by (cases xs; cases "tl xs") auto
  then show ?thesis
    by (simp add: merge_opportunity_group_several)
qed

lemma sum_list_at_least_one:
  "xs \<noteq> [] \<Longrightarrow> \<forall>x\<in>set xs. (1::int) \<le> f x \<Longrightarrow> 1 \<le> sum_list (map f xs)"
proof (induction xs)
  case Nil
  then show ?case by simp
next
  case (Cons a xs)
  show ?case
  proof (cases xs)
    case Nil
    with Cons.prems show ?thesis by simp
  next
    case (Cons b ys)
    with Cons.IH Cons.prems have "1 \<le> sum_list (map f xs)" by simp
    moreover from Cons.prems have "1 \<le> f a" by simp
    ultimately show ?thesis by simp
  qed
qed

section \<open>Single-member clusters\<close>

text \<open>
  Claim C9. Merging a cluster of exactly one member returns that member itself: the same
  record, every field (status, comments, \<open>updated_at\<close>, \<open>merged_from\<close> among them) as
  it was, whatever the clock reads.
\<close>

theorem merge_single_member_identity:
  "merge_opportunity_group list_of_set now [opp] = Inr opp"
  by (simp add: merge_opportunity_group_def)

section \<open>Merged frequency\<close>

text \<open>
  Claim C3. For every non-empty cluster the merge returns an Opportunity whose frequency
  is the sum of the frequencies of the members; when every member has a frequency of at
  least 1, so has the merged record.
\<close>

theorem merged_frequency_is_sum:
  assumes "cluster \<noteq> []"
  shows "\<exists>merged. merge_opportunity_group list_of_set now cluster = Inr merged
           \<and> frequency merged = sum_list (map frequency cluster)
           \<and> ((\<forall>opp\<in>set cluster. 1 \<le> frequency opp) \<longrightarrow> 1 \<le> frequency merged)"
proof (cases "length cluster = 1")
  case True
  then obtain x where "cluster = [x]"
    by (cases cluster) auto
  then show ?thesis
    by (simp add: merge_opportunity_group_single)
next
  case False
  with assms have "2 \<le> length cluster"
    by (cases cluster; cases "tl cluster") auto
  from merge_opportunity_group_fields[OF this, of list_of_set now]
  obtain merged where m: "merge_opportunity_group list_of_set now cluster = Inr merged"
    and f: "frequency merged = sum_list (map frequency cluster)"
    by blast
  have "(\<forall>opp\<in>set cluster. 1 \<le> frequency opp) \<longrightarrow> 1 \<le> sum_list (map frequency cluster)"
    using sum_list_at_least_one[OF assms, of frequency] by blast
  with m f show ?thesis by simp
qed

theorem merged_frequency_is_sum_witness:
  "[example_opportunity ''a'' ''slow'' ''low'' 2, example_opportunity ''b'' ''slower'' ''high'' 3] \<noteq> []
   \<and> (\<exists>merged.
         merge_opportunity_group remdups 99
           [example_opportunity ''a'' ''slow'' ''low'' 2, example_opportunity ''b'' ''slower'' ''high'' 3]
           = Inr merged
         \<and> frequency merged = 5 \<and> 1 \<le> frequency merged)"
  using merged_frequency_is_sum
    [of "[example_opportunity ''a'' ''slow'' ''low'' 2, example_opportunity ''b'' ''slower'' ''high'' 3]"
        remdups 99]
  by (auto simp: example_opportunity_def)

section \<open>Facts about the severity loop\<close>

lemma severity_value_known:
  "severity_value ''low'' = 1" "severity_value ''medium'' = 2"
  "severity_value ''high'' = 3" "severity_value ''critical'' = 4"
  by (simp_all add: severity_value_def severity_order_def)

lemma severity_value_unknown:
  "sev \<notin> recognized_severities \<Longrightarrow> severity_value sev = 0"
  by (simp add: severity_value_def severity_order_def recognized_severities_def)

lemma severity_value_recognized:
  "sev \<in> recognized_severities \<Longrightarrow> 0 < severity_value sev"
  unfolding recognized_severities_def
  by (elim insertE emptyE) (simp_all add: severity_value_known)

lemma severity_value_positive:
  "0 < severity_value sev \<Longrightarrow> sev \<in> recognized_severities"
  using severity_value_unknown[of sev] by (cases "sev \<in> recognized_severities") simp_all

lemma severity_value_injective:
  "sev \<in> recognized_severities \<Longrightarrow>
   sev' \<in> recognized_severities \<Longrightarrow>
   severity_value sev = severity_value sev' \<Longrightarrow> sev = sev'"
  by (auto simp: severity_value_known recognized_severities_def)

lemma severity_step_pair:
  "severity_step s (hs, hv) =
     (if hv < severity_value s then (s, severity_value s) else (hs, hv))"
  by (simp add: severity_step_def)

text \<open>
  The invariant of the loop: the value never falls, it bounds every severity seen, and
  the pair is either the initial one or a severity of the list with its value.
\<close>

lemma fold_severity_step:
  "fold severity_step sevs (hs, hv) = (hs', hv') \<Longrightarrow>
     hv \<le> hv' \<and> (\<forall>s\<in>set sevs. severity_value s \<le> hv') \<and>
     ((hs', hv') = (hs, hv) \<or> (hs' \<in> set sevs \<and> severity_value hs' = hv' \<and> hv < hv'))"
proof (induction sevs arbitrary: hs hv)
  case Nil
  then show ?case by simp
next
  case (Cons s sevs)
  show ?case
  proof (cases "hv < severity_value s")
    case True
    with Cons.prems have "fold severity_step sevs (s, severity_value s) = (hs', hv')"
      by (simp add: severity_step_pair)
    from Cons.IH[OF this] True show ?thesis by auto
  next
    case False
    with Cons.prems have "fold severity_step sevs (hs, hv) = (hs', hv')"
      by (simp add: severity_step_pair)
    from Cons.IH[OF this] False show ?thesis by auto
  qed
qed

lemma get_highest_severity_cases:
  "(get_highest_severity sevs = ''low'' \<and> (\<forall>s\<in>set sevs. severity_value s = 0)) \<or>
   (get_highest_severity sevs \<in> set sevs \<and> 0 < severity_value (get_highest_severity sevs)
     \<and> (\<forall>s\<in>set sevs. severity_value s \<le> severity_value (get_highest_severity sevs)))"
proof -
  obtain hs hv where f: "fold severity_step sevs (''low'', 0) = (hs, hv)"
    by (cases "fold severity_step sevs (''low'', 0)")
  from fold_severity_step[OF f] f show ?thesis
    by (auto simp: get_highest_severity_def)
qed

lemma get_highest_severity_recognized:
  "get_highest_severity sevs \<in> recognized_severities"
proof -
  from get_highest_severity_cases[of sevs]
  consider "get_highest_severity sevs = ''low''"
    | "0 < severity_value (get_highest_severity sevs)"
    by auto
  then show ?thesis
  proof cases
    case 1
    then show ?thesis by (simp add: recognized_severities_def)
  next
    case 2
    then show ?thesis by (rule severity_value_positive)
  qed
qed

lemma get_highest_severity_all_unknown:
  assumes "\<forall>s\<in>set sevs. s \<notin> recognized_severities"
  shows "get_highest_severity sevs = ''low''"
proof -
  from assms have "\<forall>s\<in>set sevs. severity_value s = 0"
    by (simp add: severity_value_unknown)
  with get_highest_severity_cases[of sevs] show ?thesis
    by auto
qed

lemma get_highest_severity_maximum:
  assumes "sevs \<noteq> []"
    and "\<forall>s\<in>set sevs. s \<in> recognized_severities"
  shows "get_highest_severity sevs \<in> set sevs
       \<and> (\<forall>s\<in>set sevs. severity_value s \<le> severity_value (get_highest_severity sevs))"
proof -
  from assms(1) obtain s where s: "s \<in> set sevs" by (cases sevs) auto
  with assms(2) have "s \<in> recognized_severities" by simp
  then have "0 < severity_value s" by (rule severity_value_recognized)
  with s have "\<not> (\<forall>s\<in>set sevs. severity_value s = 0)" by force
  with get_highest_severity_cases[of sevs] show ?thesis
    by (elim disjE conjE) simp_all
qed

lemma get_highest_severity_permuted:
  assumes "sevs \<noteq> []"
    and "\<forall>s\<in>set sevs. s \<in> recognized_severities"
    and "mset sevs' = mset sevs"
  shows "get_highest_severity sevs' = get_highest_severity sevs"
proof -
  from assms(3) have same: "set sevs' = set sevs" by (rule mset_eq_setD)
  with assms(1) have ne: "sevs' \<noteq> []" by auto
  from same assms(2) have known: "\<forall>s\<in>set sevs'. s \<in> recognized_severities"
    by simp
  note a = get_highest_severity_maximum[OF assms(1,2)]
  note b = get_highest_severity_maximum[OF ne known]
  from a b same have "severity_value (get_highest_severity sevs') = severity_value (get_highest_severity sevs)"
    by (simp add: order_antisym)
  with get_highest_severity_recognized[of sevs'] get_highest_severity_recognized[of sevs]
  show ?thesis by (rule severity_value_injective)
qed

text \<open>No severity of the list has a value above the one of the result.\<close>

lemma get_highest_severity_bound:
  "\<forall>s\<in>set sevs. severity_value s \<le> severity_value (get_highest_severity sevs)"
proof -
  from get_highest_severity_cases[of sevs]
  consider "\<forall>s\<in>set sevs. severity_value s = 0"
    | "\<forall>s\<in>set sevs. severity_value s \<le> severity_value (get_highest_severity sevs)"
    by auto
  then show ?thesis
  proof cases
    case 1
    then show ?thesis by simp
  next
    case 2
    then show ?thesis .
  qed
qed

lemma get_highest_severity_member:
  assumes "\<exists>s\<in>set sevs. s \<in> recognized_severities"
  shows "get_highest_severity sevs \<in> set sevs"
proof -
  from assms obtain s where s: "s \<in> set sevs" and "s \<in> recognized_severities" by (elim bexE)
  then have "0 < severity_value s" by (intro severity_value_recognized)
  with s have "\<not> (\<forall>s\<in>set sevs. severity_value s = 0)" by force
  with get_highest_severity_cases[of sevs] show ?thesis
    by (elim disjE conjE) simp_all
qed

text \<open>A severity of value 0 leaves the state of the loop as it is.\<close>

lemma fold_severity_step_ignores_unknown:
  "fold severity_step (filter (\<lambda>sev. sev \<in> recognized_severities) sevs) (hs, hv)
     = fold severity_step sevs (hs, hv)"
proof (induction sevs arbitrary: hs hv)
  case Nil
  show ?case by simp
next
  case (Cons s sevs)
  show ?case
  proof (cases "s \<in> recognized_severities")
    case True
    then show ?thesis
      by (simp add: severity_step_pair Cons.IH)
  next
    case False
    then have "severity_value s = 0" by (rule severity_value_unknown)
    with False show ?thesis
      by (simp add: severity_step_pair Cons.IH)
  qed
qed

lemma get_highest_severity_ignores_unknown:
  "get_highest_severity (filter (\<lambda>sev. sev \<in> recognized_severities) sevs)
     = get_highest_severity sevs"
  by (simp add: get_highest_severity_def fold_severity_step_ignores_unknown)

section \<open>Merged severity\<close>

text \<open>
  Claim C6. For every cluster of two or more Opportunities whose severities are all among
  low, medium, high and critical, the merge returns an Opportunity whose severity is a
  member's severity that no member's severity outranks, where the rank is the one of
  \<open>severity_order\<close>, low below medium below high below critical; and every
  permutation of the cluster is merged to the same severity.
\<close>

theorem merged_severity_is_maximum:
  assumes "2 \<le> length cluster"
    and "\<forall>opp\<in>set cluster. severity opp \<in> recognized_severities"
  shows "\<exists>merged. merge_opportunity_group list_of_set now cluster = Inr merged
           \<and> severity merged \<in> severity ` set cluster
           \<and> (\<forall>opp\<in>set cluster. severity_value (severity opp) \<le> severity_value (severity merged))
           \<and> (\<forall>permuted list_of_set' now'. mset permuted = mset cluster \<longrightarrow>
                 (\<exists>merged'. merge_opportunity_group list_of_set' now' permuted = Inr merged'
                    \<and> severity merged' = severity merged))
           \<and> severity_value ''low'' < severity_value ''medium''
           \<and> severity_value ''medium'' < severity_value ''high''
           \<and> severity_value ''high'' < severity_value ''critical''"
proof -
  let ?sevs = "map severity cluster"
  from assms(1) have ne: "?sevs \<noteq> []" by auto
  from assms(2) have known: "\<forall>s\<in>set ?sevs. s \<in> recognized_severities"
    by simp
  from merge_opportunity_group_fields[OF assms(1), of list_of_set now]
  obtain merged where m: "merge_opportunity_group list_of_set now cluster = Inr merged"
    and s: "severity merged = get_highest_severity ?sevs"
    by blast
  from get_highest_severity_maximum[OF ne known] s
  have top: "severity merged \<in> severity ` set cluster"
    and bound: "\<forall>opp\<in>set cluster. severity_value (severity opp) \<le> severity_value (severity merged)"
    by auto
  have perm: "\<exists>merged'. merge_opportunity_group list_of_set' now' permuted = Inr merged'
                \<and> severity merged' = severity merged"
    if p: "mset permuted = mset cluster" for permuted list_of_set' now'
  proof -
    from p have "length permuted = length cluster" by (rule mset_eq_length)
    with assms(1) have "2 \<le> length permuted" by simp
    from merge_opportunity_group_fields[OF this, of list_of_set' now']
    obtain merged' where m': "merge_opportunity_group list_of_set' now' permuted = Inr merged'"
      and s': "severity merged' = get_highest_severity (map severity permuted)"
      by blast
    from p have "mset (map severity permuted) = mset ?sevs" by simp
    from get_highest_severity_permuted[OF ne known this] s s' m' show ?thesis by simp
  qed
  show ?thesis
  proof (rule exI[of _ merged], intro conjI)
    show "merge_opportunity_group list_of_set now cluster = Inr merged" by (rule m)
    show "severity merged \<in> severity ` set cluster" by (rule top)
    show "\<forall>opp\<in>set cluster. severity_value (severity opp) \<le> severity_value (severity merged)"
      by (rule bound)
    show "\<forall>permuted list_of_set' now'. mset permuted = mset cluster \<longrightarrow>
            (\<exists>merged'. merge_opportunity_group list_of_set' now' permuted = Inr merged'
               \<and> severity merged' = severity merged)"
      by (intro allI impI) (rule perm)
    show "severity_value ''low'' < severity_value ''medium''"
      and "severity_value ''medium'' < severity_value ''high''"
      and "severity_value ''high'' < severity_value ''critical''"
      by (simp_all add: severity_value_known)
  qed
qed

theorem merged_severity_is_maximum_witness:
  "\<exists>merged merged'.
     merge_opportunity_group remdups 99
       [example_opportunity ''a'' ''slow'' ''medium'' 1, example_opportunity ''b'' ''slower'' ''critical'' 1,
        example_opportunity ''c'' ''slowest'' ''high'' 1] = Inr merged
     \<and> merge_opportunity_group remdups 99
       [example_opportunity ''c'' ''slowest'' ''high'' 1, example_opportunity ''a'' ''slow'' ''medium'' 1,
        example_opportunity ''b'' ''slower'' ''critical'' 1] = Inr merged'
     \<and> severity merged = ''critical'' \<and> severity merged' = ''critical''"
proof -
  let ?a = "example_opportunity ''a'' ''slow'' ''medium'' 1"
  let ?b = "example_opportunity ''b'' ''slower'' ''critical'' 1"
  let ?c = "example_opportunity ''c'' ''slowest'' ''high'' 1"
  have len: "2 \<le> length [?a, ?b, ?c]" by simp
  have known: "\<forall>opp\<in>set [?a, ?b, ?c]. severity opp \<in> recognized_severities"
    by (simp add: example_opportunity_def recognized_severities_def)
  have perm: "mset [?c, ?a, ?b] = mset [?a, ?b, ?c]" by simp
  from merged_severity_is_maximum[OF len known, of remdups 99]
  obtain merged where m: "merge_opportunity_group remdups 99 [?a, ?b, ?c] = Inr merged"
    and top: "severity merged \<in> severity ` set [?a, ?b, ?c]"
    and bound: "\<forall>opp\<in>set [?a, ?b, ?c]. severity_value (severity opp) \<le> severity_value (severity merged)"
    and all: "\<forall>permuted list_of_set' now'. mset permuted = mset [?a, ?b, ?c] \<longrightarrow>
                 (\<exists>merged'. merge_opportunity_group list_of_set' now' permuted = Inr merged'
                    \<and> severity merged' = severity merged)"
    by (elim exE conjE)
  from all have "mset [?c, ?a, ?b] = mset [?a, ?b, ?c] \<longrightarrow>
                 (\<exists>merged'. merge_opportunity_group remdups 99 [?c, ?a, ?b] = Inr merged'
                    \<and> severity merged' = severity merged)"
    by (elim allE)
  with perm obtain merged' where m': "merge_opportunity_group remdups 99 [?c, ?a, ?b] = Inr merged'"
    and s': "severity merged' = severity merged"
    by (elim impE exE conjE)
  from bound have "4 \<le> severity_value (severity merged)"
    by (simp add: example_opportunity_def severity_value_known)
  with top have "severity merged = ''critical''"
    by (auto simp: example_opportunity_def severity_value_known)
  with m m' s' show ?thesis
    by (intro exI[of _ merged] exI[of _ merged'] conjI) simp_all
qed

section \<open>Unrecognized severities\<close>

text \<open>
  Claim C10. In a cluster of two or more Opportunities a severity that is not one of low,
  medium, high and critical has the value 0, strictly below the value of low, when the
  merged severity is computed. So the merged severity is always one of the four, and no
  member's severity has a greater value; when some member carries one of the four, the
  merged severity is the severity of a member, and the unrecognized members do not change
  it; when no member carries one of the four, the merged severity is low.
\<close>

theorem unrecognized_severity_ranks_below_low:
  assumes "2 \<le> length cluster"
  shows "\<exists>merged. merge_opportunity_group list_of_set now cluster = Inr merged
           \<and> (\<forall>opp\<in>set cluster.
                 severity opp \<notin> recognized_severities \<longrightarrow>
                 severity_value (severity opp) < severity_value ''low'')
           \<and> severity merged \<in> recognized_severities
           \<and> (\<forall>opp\<in>set cluster.
                 severity_value (severity opp) \<le> severity_value (severity merged))
           \<and> ((\<exists>opp\<in>set cluster. severity opp \<in> recognized_severities)
                 \<longrightarrow> severity merged \<in> severity ` set cluster)
           \<and> severity merged =
               get_highest_severity
                 (filter (\<lambda>sev. sev \<in> recognized_severities) (map severity cluster))
           \<and> ((\<forall>opp\<in>set cluster. severity opp \<notin> recognized_severities)
                 \<longrightarrow> severity merged = ''low'')"
proof -
  let ?sevs = "map severity cluster"
  from merge_opportunity_group_fields[OF assms, of list_of_set now]
  obtain merged where m: "merge_opportunity_group list_of_set now cluster = Inr merged"
    and s: "severity merged = get_highest_severity ?sevs"
    by (elim exE conjE)
  have below: "\<forall>opp\<in>set cluster.
                 severity opp \<notin> recognized_severities \<longrightarrow>
                 severity_value (severity opp) < severity_value ''low''"
    using severity_value_unknown by (simp add: severity_value_known)
  have rec: "severity merged \<in> recognized_severities"
    unfolding s by (rule get_highest_severity_recognized)
  have bound: "\<forall>opp\<in>set cluster. severity_value (severity opp) \<le> severity_value (severity merged)"
    unfolding s using get_highest_severity_bound[of ?sevs] by simp
  have member: "severity merged \<in> severity ` set cluster"
    if "\<exists>opp\<in>set cluster. severity opp \<in> recognized_severities"
  proof -
    from that have "\<exists>sev\<in>set ?sevs. sev \<in> recognized_severities" by simp
    from get_highest_severity_member[OF this] s show ?thesis by simp
  qed
  have ignore: "severity merged =
               get_highest_severity (filter (\<lambda>sev. sev \<in> recognized_severities) ?sevs)"
    unfolding s by (rule get_highest_severity_ignores_unknown[symmetric])
  have low: "severity merged = ''low''"
    if "\<forall>opp\<in>set cluster. severity opp \<notin> recognized_severities"
    unfolding s using that by (intro get_highest_severity_all_unknown) simp
  show ?thesis
  proof (rule exI[of _ merged], intro conjI impI)
    show "merge_opportunity_group list_of_set now cluster = Inr merged" by (rule m)
    show "\<forall>opp\<in>set cluster.
            severity opp \<notin> recognized_severities \<longrightarrow>
            severity_value (severity opp) < severity_value ''low''"
      by (rule below)
    show "severity merged \<in> recognized_severities" by (rule rec)
    show "\<forall>opp\<in>set cluster. severity_value (severity opp) \<le> severity_value (severity merged)"
      by (rule bound)
    show "severity merged \<in> severity ` set cluster"
      if "\<exists>opp\<in>set cluster. severity opp \<in> recognized_severities"
      using that by (rule member)
    show "severity merged =
            get_highest_severity (filter (\<lambda>sev. sev \<in> recognized_severities) (map severity cluster))"
      by (rule ignore)
    show "severity merged = ''low''"
      if "\<forall>opp\<in>set cluster. severity opp \<notin> recognized_severities"
      using that by (rule low)
  qed
qed

theorem unrecognized_severity_ranks_below_low_witness:
  "(\<exists>merged.
      merge_opportunity_group remdups 99
        [example_opportunity ''a'' ''slow'' ''urgent'' 1, example_opportunity ''b'' ''slower'' ''HIGH'' 1]
        = Inr merged
      \<and> severity_value ''urgent'' < severity_value ''low''
      \<and> severity merged = ''low'')
   \<and> (\<exists>merged.
      merge_opportunity_group remdups 99
        [example_opportunity ''a'' ''slow'' ''critical'' 1, example_opportunity ''b'' ''slower'' ''urgent'' 1]
        = Inr merged
      \<and> severity merged = ''critical'')"
proof -
  let ?a = "example_opportunity ''a'' ''slow'' ''urgent'' 1"
  let ?b = "example_opportunity ''b'' ''slower'' ''HIGH'' 1"
  let ?c = "example_opportunity ''a'' ''slow'' ''critical'' 1"
  let ?d = "example_opportunity ''b'' ''slower'' ''urgent'' 1"
  have len: "2 \<le> length [?a, ?b]" by simp
  have unknown: "\<forall>opp\<in>set [?a, ?b]. severity opp \<notin> recognized_severities"
    by (simp add: example_opportunity_def recognized_severities_def)
  from unrecognized_severity_ranks_below_low[OF len, of remdups 99]
  obtain merged where m: "merge_opportunity_group remdups 99 [?a, ?b] = Inr merged"
    and below: "\<forall>opp\<in>set [?a, ?b]. severity opp \<notin> recognized_severities \<longrightarrow>
                 severity_value (severity opp) < severity_value ''low''"
    and low: "(\<forall>opp\<in>set [?a, ?b]. severity opp \<notin> recognized_severities)
                 \<longrightarrow> severity merged = ''low''"
    by (elim exE conjE)
  from low unknown have "severity merged = ''low''" by (rule mp)
  moreover from below unknown have "severity_value ''urgent'' < severity_value ''low''"
    by (simp add: example_opportunity_def)
  ultimately have first: "\<exists>merged.
      merge_opportunity_group remdups 99 [?a, ?b] = Inr merged
      \<and> severity_value ''urgent'' < severity_value ''low''
      \<and> severity merged = ''low''"
    using m by (intro exI[of _ merged] conjI)
  have len': "2 \<le> length [?c, ?d]" by simp
  from unrecognized_severity_ranks_below_low[OF len', of remdups 99]
  obtain merged' where m': "merge_opportunity_group remdups 99 [?c, ?d] = Inr merged'"
    and rec': "severity merged' \<in> recognized_severities"
    and bound': "\<forall>opp\<in>set [?c, ?d]. severity_value (severity opp) \<le> severity_value (severity merged')"
    by (elim exE conjE)
  from bound' have "4 \<le> severity_value (severity merged')"
    by (simp add: example_opportunity_def severity_value_known)
  with rec' have "severity merged' = ''critical''"
    unfolding recognized_severities_def
    by (elim insertE emptyE) (simp_all add: severity_value_known)
  with m' have second: "\<exists>merged.
      merge_opportunity_group remdups 99 [?c, ?d] = Inr merged \<and> severity merged = ''critical''"
    by (intro exI[of _ merged'] conjI)
  from first second show ?thesis by (rule conjI)
qed

section \<open>Facts about the description loop\<close>

lemma py_lower_empty: "py_lower s = [] \<longleftrightarrow> s = []"
  by (simp add: py_lower_def)

lemma description_step_pair:
  "description_step d (u, seen) =
     (if py_lower (py_strip d) \<notin> seen \<and> py_strip d \<noteq> []
      then (u @ [py_strip d], insert (py_lower (py_strip d)) seen) else (u, seen))"
  by (simp add: description_step_def py_lower_empty)

text \<open>
  The loop keeps the trimmed descriptions that are not empty and whose lower-case form
  was not seen before, each at its first occurrence.
\<close>

lemma fold_description_step:
  "fst (fold description_step ds (u, seen)) =
     u @ keep_first py_lower
           (filter (\<lambda>d. d \<noteq> [] \<and> py_lower d \<notin> seen) (map py_strip ds))"
proof (induction ds arbitrary: u seen)
  case Nil
  show ?case by simp
next
  case (Cons d ds)
  show ?case
  proof (cases "py_lower (py_strip d) \<notin> seen \<and> py_strip d \<noteq> []")
    case True
    have "filter (\<lambda>y. py_lower y \<noteq> py_lower (py_strip d))
            (filter (\<lambda>d. d \<noteq> [] \<and> py_lower d \<notin> seen) (map py_strip ds))
          = filter (\<lambda>y. y \<noteq> [] \<and> py_lower y \<notin> insert (py_lower (py_strip d)) seen)
              (map py_strip ds)"
      by (auto intro: filter_cong)
    with True Cons.IH[of "u @ [py_strip d]" "insert (py_lower (py_strip d)) seen"]
    show ?thesis by (simp add: description_step_pair)
  next
    case False
    with Cons.IH[of u seen] show ?thesis by (auto simp: description_step_pair)
  qed
qed

lemma py_join_single: "length xs = 1 \<Longrightarrow> xs ! 0 = py_join sep xs"
  by (cases xs) auto

lemma merge_descriptions_several:
  "length ds \<noteq> 1 \<Longrightarrow>
   merge_descriptions ds =
     py_join '' | '' (keep_first py_lower (filter (\<lambda>d. d \<noteq> []) (map py_strip ds)))"
  using fold_description_step[of ds "[]" "{}"]
  by (simp add: merge_descriptions_def Let_def py_join_single)

section \<open>Merged description\<close>

text \<open>
  Claim C7, as amended. For every cluster of two or more Opportunities the merged
  description is built from the trimmed descriptions of the members: those that are
  empty after trimming are dropped, the others are deduplicated by case-insensitive
  equality (first occurrence kept, in member order) and joined with \<^verbatim>\<open>" | "\<close>; one
  remaining description is returned as it is, and none gives the empty string.
\<close>

theorem merged_description_skips_blank_members:
  assumes "2 \<le> length cluster"
  shows "\<exists>merged. merge_opportunity_group list_of_set now cluster = Inr merged
           \<and> description merged =
               py_join '' | ''
                 (keep_first py_lower
                    (filter (\<lambda>d. d \<noteq> []) (map (\<lambda>opp. py_strip (description opp)) cluster)))"
proof -
  from merge_opportunity_group_fields[OF assms, of list_of_set now]
  obtain merged where m: "merge_opportunity_group list_of_set now cluster = Inr merged"
    and d: "description merged = merge_descriptions (map description cluster)"
    by (elim exE conjE)
  from assms have "length (map description cluster) \<noteq> 1" by simp
  from merge_descriptions_several[OF this] d
  have "description merged =
          py_join '' | ''
            (keep_first py_lower
               (filter (\<lambda>d. d \<noteq> []) (map (\<lambda>opp. py_strip (description opp)) cluster)))"
    by (simp add: comp_def)
  with m show ?thesis by (intro exI[of _ merged] conjI)
qed

theorem merged_description_skips_blank_members_witness:
  "\<exists>merged.
     merge_opportunity_group remdups 99
       [example_opportunity ''a'' '' Slow '' ''low'' 1, example_opportunity ''b'' '''' ''low'' 1,
        example_opportunity ''c'' ''slow'' ''low'' 1, example_opportunity ''d'' ''Late'' ''low'' 1]
       = Inr merged
     \<and> description merged = ''Slow | Late''"
proof -
  let ?cluster = "[example_opportunity ''a'' '' Slow '' ''low'' 1, example_opportunity ''b'' '''' ''low'' 1,
        example_opportunity ''c'' ''slow'' ''low'' 1, example_opportunity ''d'' ''Late'' ''low'' 1]"
  have len: "2 \<le> length ?cluster" by simp
  from merged_description_skips_blank_members[OF len, of remdups 99]
  obtain merged where m: "merge_opportunity_group remdups 99 ?cluster = Inr merged"
    and d: "description merged =
               py_join '' | ''
                 (keep_first py_lower
                    (filter (\<lambda>d. d \<noteq> []) (map (\<lambda>opp. py_strip (description opp)) ?cluster)))"
    by (elim exE conjE)
  have "py_join '' | ''
          (keep_first py_lower
             (filter (\<lambda>d. d \<noteq> []) (map (\<lambda>opp. py_strip (description opp)) ?cluster)))
        = ''Slow | Late''"
    by code_simp
  with d have "description merged = ''Slow | Late''" by simp
  with m show ?thesis by (intro exI[of _ merged] conjI)
qed

text \<open>
  The claim as it is worded fails on a member whose description is blank: the two
  descriptions \<open>''''\<close> and \<open>''b''\<close> are distinct under case-insensitive trimmed equality,
  so the wording gives \<^verbatim>\<open>" | b"\<close>, while the merge returns \<^verbatim>\<open>"b"\<close>.
\<close>

theorem merged_description_counterexample:
  "map_sum id description
     (merge_opportunity_group remdups 99
        [example_opportunity ''a'' '''' ''low'' 1, example_opportunity ''b'' ''b'' ''low'' 1])
     = Inr ''b''
   \<and> merge_descriptions_as_claimed
       (map description
          [example_opportunity ''a'' '''' ''low'' 1, example_opportunity ''b'' ''b'' ''low'' 1])
     = '' | b''"
  by (simp add: merge_opportunity_group_several merge_descriptions_several
      merge_descriptions_as_claimed_def example_opportunity_def
      py_strip_def py_isspace_def py_lower_def lower_char_def)

section \<open>Greedy grouping around a seed\<close>

text \<open>
  Claim C1, as amended. Let A, B, C be three opportunities with similarity(A,B) and
  similarity(B,C) at or above the threshold and similarity(A,C) below it. In the input
  order A, B, C the seed A attaches B and does not attach C, which is compared with the
  seed alone: the clusters are A, B and C. In the input order A, C, B the seed A passes
  over C and attaches B, and C stays on its own: the clusters are again A, B and C.
  The matrix of the second order is the one of the first with rows and columns permuted.
\<close>

theorem grouping_compares_with_seed_only:
  assumes "threshold \<le> ab" and "threshold \<le> bc" and "ac < threshold"
  shows "find_similarity_groups threshold [[aa, ab, ac], [ba, bb, bc], [ca, cb, cc]] [A, B, C]
           = Inr [[A, B], [C]]
       \<and> find_similarity_groups threshold [[aa, ac, ab], [ca, cc, cb], [ba, bc, bb]] [A, C, B]
           = Inr [[A, B], [C]]"
proof -
  have "find_similarity_groups threshold [[aa, ab, ac], [ba, bb, bc], [ca, cb, cc]] [A, B, C]
           = Inr [[A, B], [C]]"
    using assms
    by (simp add: find_similarity_groups_def seed_step_def attach_step_def upt_rec
        numeral_2_eq_2 numeral_3_eq_3)
  moreover
  have "find_similarity_groups threshold [[aa, ac, ab], [ca, cc, cb], [ba, bc, bb]] [A, C, B]
           = Inr [[A, B], [C]]"
    using assms
    by (simp add: find_similarity_groups_def seed_step_def attach_step_def upt_rec
        numeral_2_eq_2 numeral_3_eq_3)
  ultimately show ?thesis by (rule conjI)
qed

theorem grouping_compares_with_seed_only_witness:
  "find_similarity_groups (8 / 10)
     [[1, 9 / 10, 5 / 10], [9 / 10, 1, 9 / 10], [5 / 10, 9 / 10, 1]]
     [example_opportunity ''A'' ''slow checkout'' ''low'' 1,
      example_opportunity ''B'' ''checkout is slow'' ''low'' 1,
      example_opportunity ''C'' ''checkout slow on mobile'' ''low'' 1]
   = Inr [[example_opportunity ''A'' ''slow checkout'' ''low'' 1,
           example_opportunity ''B'' ''checkout is slow'' ''low'' 1],
          [example_opportunity ''C'' ''checkout slow on mobile'' ''low'' 1]]
   \<and> find_similarity_groups (8 / 10)
     [[1, 5 / 10, 9 / 10], [5 / 10, 1, 9 / 10], [9 / 10, 9 / 10, 1]]
     [example_opportunity ''A'' ''slow checkout'' ''low'' 1,
      example_opportunity ''C'' ''checkout slow on mobile'' ''low'' 1,
      example_opportunity ''B'' ''checkout is slow'' ''low'' 1]
   = Inr [[example_opportunity ''A'' ''slow checkout'' ''low'' 1,
           example_opportunity ''B'' ''checkout is slow'' ''low'' 1],
          [example_opportunity ''C'' ''checkout slow on mobile'' ''low'' 1]]"
proof -
  have "(8 / 10 :: real) \<le> 9 / 10" and "(5 / 10 :: real) < 8 / 10" by simp_all
  from grouping_compares_with_seed_only[OF this(1) this(1) this(2),
      of 1 "9 / 10" 1 "5 / 10" "9 / 10" 1
         "example_opportunity ''A'' ''slow checkout'' ''low'' 1"
         "example_opportunity ''B'' ''checkout is slow'' ''low'' 1"
         "example_opportunity ''C'' ''checkout slow on mobile'' ''low'' 1"]
  show ?thesis .
qed

text \<open>
  The claim as it is worded puts all three into one cluster in the order A, B, C. With
  the threshold 0.8, similarity 0.9 for A, B and for B, C and 0.5 for A, C the grouping
  returns two clusters.
\<close>

theorem grouping_counterexample:
  "find_similarity_groups (8 / 10)
     [[1, 9 / 10, 5 / 10], [9 / 10, 1, 9 / 10], [5 / 10, 9 / 10, 1]]
     [example_opportunity ''A'' ''slow checkout'' ''low'' 1,
      example_opportunity ''B'' ''checkout is slow'' ''low'' 1,
      example_opportunity ''C'' ''checkout slow on mobile'' ''low'' 1]
   \<noteq> Inr [[example_opportunity ''A'' ''slow checkout'' ''low'' 1,
            example_opportunity ''B'' ''checkout is slow'' ''low'' 1,
            example_opportunity ''C'' ''checkout slow on mobile'' ''low'' 1]]"
  by (simp add: find_similarity_groups_def seed_step_def attach_step_def upt_rec
      numeral_2_eq_2 numeral_3_eq_3)

section \<open>Facts about the response parser\<close>





text \<open>
  The parser raises exactly when the decoder raises, on the matched region, an exception
  other than \<^verbatim>\<open>JSONDecodeError\<close>.
\<close>

lemma parse_ai_response_raises_iff:
  "parse_ai_response decoder response_text = Inl e \<longleftrightarrow>
     (\<exists>json_str. search_json response_text = Some json_str
        \<and> decoder json_str = Inl e \<and> e \<noteq> JSONDecodeError)"
  by (cases e) (auto simp: parse_ai_response_def split: option.splits sum.splits py_exception.splits)

section \<open>What the parser returns and when it raises\<close>






section \<open>The factory and a record without a title\<close>

text \<open>
  Where the record has a title, every other field that is missing gets its default:
  the description a placeholder, the category \<^verbatim>\<open>improvement_opportunity\<close>, the severity
  \<^verbatim>\<open>medium\<close>, the keywords the empty list.
\<close>

lemma create_opportunity_defaults:
  assumes "data_title data = Some t"
  shows "\<exists>opp. create_opportunity_from_analysis hash now data item given_date = Inr opp
           \<and> title opp = t
           \<and> (data_description data = None \<longrightarrow> description opp = no_description_placeholder)
           \<and> (data_category data = None \<longrightarrow> category opp = ''improvement_opportunity'')
           \<and> (data_severity data = None \<longrightarrow> severity opp = ''medium'')
           \<and> (data_keywords data = None \<longrightarrow> opp_keywords opp = [])
           \<and> frequency opp = 1 \<and> sources opp = [item_id item] \<and> status opp = ''nueva''
           \<and> comments opp = [] \<and> merged_from opp = []"
  using assms by (simp add: create_opportunity_from_analysis_def Let_def)

lemma create_opportunity_without_title:
  "data_title data = None \<Longrightarrow>
   create_opportunity_from_analysis hash now data item given_date = Inl KeyError"
  by (simp add: create_opportunity_from_analysis_def Let_def)

text \<open>
  Claim C2. The factory is meant to give a record without a title the placeholder title
  (\<^verbatim>\<open>opp_data.get('title', ...)\<close>), but the identifier is derived first from
  \<^verbatim>\<open>opp_data['title']\<close>, which raises \<^verbatim>\<open>KeyError\<close>: for the record that carries
  a description and no title no Opportunity is produced.
\<close>

theorem create_opportunity_without_title_raises:
  "create_opportunity_from_analysis toy_hash 99 (example_data None) (example_item ''item1'') None
     = Inl KeyError"
  by (simp add: create_opportunity_from_analysis_def example_data_def)

section \<open>The identifier\<close>

text \<open>Reading a decimal numeral back gives the number, so \<open>str_nat\<close> is injective.\<close>

lemma digits_value_str_nat:
  "foldl (\<lambda>a c. 10 * a + (of_char c - 48)) 0 (str_nat n) = n"
proof (induction n rule: str_nat.induct)
  case (1 n)
  show ?case
  proof (cases "n < 10")
    case True
    then show ?thesis by (subst str_nat.simps) simp
  next
    case False
    have "n mod 10 < 10" by simp
    then have d: "(48 + n mod 10) mod 256 = 48 + n mod 10" by simp
    from False 1 have "foldl (\<lambda>a c. 10 * a + (of_char c - 48)) 0 (str_nat (n div 10)) = n div 10"
      by simp
    with False d show ?thesis
      by (subst str_nat.simps) simp
  qed
qed

lemma str_nat_injective: "str_nat n = str_nat m \<Longrightarrow> n = m"
  using digits_value_str_nat by metis

text \<open>
  Whatever \<^verbatim>\<open>hash\<close> is, it has only 10000 residues for infinitely many titles.
\<close>

lemma hash_residue_collision:
  fixes h :: "string \<Rightarrow> int"
  shows "\<exists>t1 t2. t1 \<noteq> t2 \<and> h t1 mod 10000 = h t2 mod 10000"
proof (rule ccontr)
  assume "\<not> ?thesis"
  then have inj: "inj (\<lambda>t. h t mod 10000)" by (auto simp: inj_on_def)
  have "range (\<lambda>t. h t mod 10000) \<subseteq> {0..<10000}" by auto
  then have "finite (range (\<lambda>t. h t mod 10000))" using finite_subset by blast
  with inj have "finite (UNIV :: string set)" using finite_imageD by blast
  then show False using infinite_UNIV_listI by blast
qed

text \<open>
  Claim C8, as amended. The identifier is \<^verbatim>\<open>opp_\<close>, the item id, an underscore and the
  decimal numeral of the hash of the title modulo 10000: a function of the item id and
  the title during one run, whatever the clock and the other fields are. Two titles of
  the same item get the same identifier exactly when their hashes agree modulo 10000,
  and for every hash function there are two different titles that do.
\<close>

theorem opportunity_id_determined_up_to_hash_residue:
  fixes hash :: "string \<Rightarrow> int"
  assumes "data_title d1 = Some t1" and "data_title d2 = Some t2"
  shows "\<exists>o1 o2. create_opportunity_from_analysis hash now1 d1 item date1 = Inr o1
           \<and> create_opportunity_from_analysis hash now2 d2 item date2 = Inr o2
           \<and> opp_id o1 = ''opp_'' @ item_id item @ ''_'' @ str_nat (nat (hash t1 mod 10000))
           \<and> (opp_id o1 = opp_id o2 \<longleftrightarrow> hash t1 mod 10000 = hash t2 mod 10000)
           \<and> (\<exists>t t'. t \<noteq> t' \<and> hash t mod 10000 = hash t' mod 10000)"
proof -
  have "nat (hash t1 mod 10000) = nat (hash t2 mod 10000) \<longleftrightarrow> hash t1 mod 10000 = hash t2 mod 10000"
    by (simp add: nat_eq_iff)
  with assms hash_residue_collision[of hash] show ?thesis
    by (auto simp: create_opportunity_from_analysis_def Let_def dest: str_nat_injective)
qed

theorem opportunity_id_determined_up_to_hash_residue_witness:
  "\<exists>o1 o2. create_opportunity_from_analysis toy_hash 5 (example_data (Some ''ab'')) (example_item ''item1'') None
             = Inr o1
         \<and> create_opportunity_from_analysis toy_hash 7 (example_data (Some ''ab'')) (example_item ''item1'') (Some 3)
             = Inr o2
         \<and> opp_id o1 = ''opp_item1_195'' \<and> opp_id o2 = ''opp_item1_195''"
proof -
  have t: "data_title (example_data (Some ''ab'')) = Some ''ab''"
    by (simp add: example_data_def)
  from opportunity_id_determined_up_to_hash_residue[OF t t, of toy_hash 5 "example_item ''item1''" None 7 "Some 3"]
  obtain o1 o2 where
    c1: "create_opportunity_from_analysis toy_hash 5 (example_data (Some ''ab'')) (example_item ''item1'') None
           = Inr o1"
    and c2: "create_opportunity_from_analysis toy_hash 7 (example_data (Some ''ab'')) (example_item ''item1'') (Some 3)
           = Inr o2"
    and i: "opp_id o1 = ''opp_'' @ item_id (example_item ''item1'') @ ''_'' @ str_nat (nat (toy_hash ''ab'' mod 10000))"
    and e: "opp_id o1 = opp_id o2 \<longleftrightarrow> toy_hash ''ab'' mod 10000 = toy_hash ''ab'' mod 10000"
    by (elim exE conjE)
  have "str_nat (nat (toy_hash ''ab'' mod 10000)) = ''195''"
    by code_simp
  with i have "opp_id o1 = ''opp_item1_195''"
    by (simp add: example_item_def)
  moreover from this e have "opp_id o2 = ''opp_item1_195''" by simp
  ultimately show ?thesis using c1 c2 by (intro exI[of _ o1] exI[of _ o2] conjI)
qed

text \<open>
  The claim as it is worded gives two different titles of one item different
  identifiers. With \<open>toy_hash\<close> the titles \<open>''ab''\<close> and \<open>''ba''\<close> of one item get the
  same identifier.
\<close>

theorem opportunity_id_counterexample:
  "map_sum id opp_id
     (create_opportunity_from_analysis toy_hash 5 (example_data (Some ''ab'')) (example_item ''item1'') None)
     = Inr ''opp_item1_195''
   \<and> map_sum id opp_id
     (create_opportunity_from_analysis toy_hash 5 (example_data (Some ''ba'')) (example_item ''item1'') None)
     = Inr ''opp_item1_195''
   \<and> ''ab'' \<noteq> ''ba''"
proof -
  have "str_nat (nat (toy_hash ''ab'' mod 10000)) = ''195''"
    and "str_nat (nat (toy_hash ''ba'' mod 10000)) = ''195''"
    by code_simp+
  then show ?thesis
    by (simp add: create_opportunity_from_analysis_def example_data_def example_item_def)
qed

section \<open>Fallback of a failed batch\<close>

lemma analyze_single_item_returns:
  "\<exists>opps w'. analyze_single_item self item w = (Inr opps, w')"
  by (auto simp: analyze_single_item_def Let_def split: prod.splits sum.splits)

lemma analyze_batch_single:
  "analyze_batch self [item] w =
     (case analyze_single_item self item w of
        (Inl e, w') \<Rightarrow> ([], w')
      | (Inr opps, w') \<Rightarrow> (opps, w'))"
  by (simp add: analyze_batch_def)

text \<open>The fallback loop appends to its accumulator what the items give one by one.\<close>

lemma analyze_each_individually:
  "analyze_each self items acc w =
     (acc @ fst (individually self items w), snd (individually self items w))"
proof (induction items arbitrary: acc w)
  case Nil
  show ?case by simp
next
  case (Cons item items)
  show ?case
    by (simp add: analyze_batch_single Cons.IH split: prod.splits sum.splits)
qed

text \<open>
  Claim C5. For every batch of more than one item on which the consolidated call raises,
  the batch operation returns what running the items one at a time through the size-1
  path returns, from the world the failed call left: the same opportunities in item
  order, hence the same number of them, and the same world afterwards.
\<close>

theorem failed_batch_equals_items_one_by_one:
  assumes "1 < length content_items"
    and "analyze_multiple_items self content_items w = (Inl e, w')"
  shows "analyze_batch self content_items w = individually self content_items w'
       \<and> length (fst (analyze_batch self content_items w))
           = length (fst (individually self content_items w'))"
  using assms by (simp add: analyze_batch_def analyze_each_individually)


theorem failed_batch_equals_items_one_by_one_witness:
  "analyze_batch toy_analyzer [example_item ''item1'', example_item ''item2''] 0
     = individually toy_analyzer [example_item ''item1'', example_item ''item2''] 0
   \<and> map opp_id (fst (individually toy_analyzer [example_item ''item1'', example_item ''item2''] 0))
     = [''opp_item1_195'', ''opp_item2_195'']"
proof -
  let ?items = "[example_item ''item1'', example_item ''item2'']"
  have len: "1 < length ?items" by simp
  have failed: "analyze_multiple_items toy_analyzer ?items 0 = (Inl AttributeError, 0)"
    by (simp add: toy_analyzer_def)
  from failed_batch_equals_items_one_by_one[OF len failed]
  have "analyze_batch toy_analyzer ?items 0 = individually toy_analyzer ?items 0"
    by (rule conjunct1)
  moreover
  have "map opp_id (fst (individually toy_analyzer ?items 0)) = [''opp_item1_195'', ''opp_item2_195'']"
    by code_simp
  ultimately show ?thesis by (rule conjI)
qed

end
